theory Spec2Isabelle
  imports Complex_Main
begin

section \<open>Strings and paths\<close>

text \<open>
  Python strings are modelled as \<open>string\<close>; a character stands for a code point
  below 256. The functions of this section model the parts of the Python standard library
  the repository calls (\<open>str.lower\<close>, \<open>str.strip\<close>, \<open>str.join\<close>, \<open>str.replace\<close>,
  \<open>os.path.join\<close> and the pure part of \<open>pathlib\<close> on a POSIX system).
\<close>

definition lower_char :: "char \<Rightarrow> char" where
  "lower_char c =
     (let n = (of_char c :: nat)
      in if (65 \<le> n \<and> n \<le> 90) \<or> (192 \<le> n \<and> n \<le> 222 \<and> n \<noteq> 215)
         then char_of (n + 32) else c)"

definition lower :: "string \<Rightarrow> string" where
  "lower s = map lower_char s"



fun join :: "string \<Rightarrow> string list \<Rightarrow> string" where
  "join sep [] = []"
| "join sep [x] = x"
| "join sep (x # y # ys) = x @ sep @ join sep (y # ys)"

primrec split_on :: "char \<Rightarrow> string \<Rightarrow> string list" where
  "split_on c [] = [[]]"
| "split_on c (x # xs) =
     (if x = c then [] # split_on c xs
      else (case split_on c xs of [] \<Rightarrow> [[x]] | p # ps \<Rightarrow> (x # p) # ps))"

text \<open>
  \<open>startswith old s\<close> is \<open>s.startswith(old)\<close>; \<open>replace old new s\<close> is
  \<open>s.replace(old, new)\<close>: every non-overlapping occurrence of \<open>old\<close>, found from the
  left, is replaced. For an empty \<open>old\<close> Python puts \<open>new\<close> before every character and
  at the end.
\<close>

fun startswith :: "string \<Rightarrow> string \<Rightarrow> bool" where
  "startswith [] s = True"
| "startswith (x # xs) [] = False"
| "startswith (x # xs) (y # ys) = (x = y \<and> startswith xs ys)"

function replace :: "string \<Rightarrow> string \<Rightarrow> string \<Rightarrow> string" where
  "replace old new s =
     (if s = [] then (if old = [] then new else [])
      else if old = [] then new @ hd s # replace old new (tl s)
      else if startswith old s then new @ replace old new (drop (length old) s)
      else hd s # replace old new (tl s))"
  by pat_completeness auto
termination
  by (relation "measure (\<lambda>(old, new, s). length s)") auto

text \<open>\<open>contains old s\<close> is Python's \<open>old in s\<close>.\<close>

fun contains :: "string \<Rightarrow> string \<Rightarrow> bool" where
  "contains old [] = (old = [])"
| "contains old (y # ys) = (startswith old (y # ys) \<or> contains old ys)"

text \<open>\<open>os.path.join(a, b)\<close> of \<open>posixpath\<close>, for two arguments.\<close>

definition os_path_join :: "string \<Rightarrow> string \<Rightarrow> string" where
  "os_path_join a b =
     (if startswith ''/'' b then b
      else if a = [] \<or> (a \<noteq> [] \<and> last a = CHR ''/'') then a @ b
      else a @ ''/'' @ b)"

text \<open>
  A \<open>pathlib.Path\<close> on a POSIX system: the root (\<open>''''\<close>, \<open>''/''\<close> or \<open>''//''\<close>) and the
  components. \<open>Path s\<close> is the constructor call \<open>Path(s)\<close>, \<open>str_path\<close> is \<open>str(p)\<close>,
  \<open>name\<close> and \<open>suffix\<close> are the properties of these names (\<open>suffix\<close> as in Python up
  to 3.13: the part of the name from its last dot, when that dot is neither the first nor
  the last character of the name).
\<close>

record path =
  root :: string
  parts :: "string list"

definition Path :: "string \<Rightarrow> path" where
  "Path s =
     (let lead = takeWhile (\<lambda>c. c = CHR ''/'') s;
          rest = dropWhile (\<lambda>c. c = CHR ''/'') s
      in \<lparr> root = (if lead = [] then [] else if length lead = 2 then ''//'' else ''/''),
           parts = filter (\<lambda>x. x \<noteq> [] \<and> x \<noteq> ''.'') (split_on CHR ''/'' rest) \<rparr>)"

definition str_path :: "path \<Rightarrow> string" where
  "str_path p =
     (if root p = [] \<and> parts p = [] then ''.'' else root p @ join ''/'' (parts p))"

definition name :: "path \<Rightarrow> string" where
  "name p = (if parts p = [] then [] else last (parts p))"

definition suffix :: "path \<Rightarrow> string" where
  "suffix p =
     (let nm = name p;
          ext = rev (takeWhile (\<lambda>c. c \<noteq> CHR ''.'') (rev nm))
      in if CHR ''.'' \<in> set nm \<and> ext \<noteq> [] \<and> length ext + 1 < length nm
         then CHR ''.'' # ext else [])"

section \<open>The environment: file system, parser, splitter, vector store\<close>

text \<open>
  What the file system answers for a path. \<open>stat_kind f p\<close> is the kind of file the
  call \<open>p.stat()\<close> finds, and \<open>None\<close> when the path does not exist and the call
  raises; \<open>st_size f p\<close> and \<open>st_mtime f p\<close> are the size and the modification time
  the call reports for a path that exists. \<open>rglob f d\<close> is the sequence of paths
  \<open>d.rglob('*')\<close> yields, in iteration order. The file system does not change while a
  function runs.
\<close>

datatype file_kind = RegularFile | Directory | OtherFile

record filesystem =
  stat_kind :: "path \<Rightarrow> file_kind option"
  rglob :: "path \<Rightarrow> path list"
  st_size :: "path \<Rightarrow> nat"
  st_mtime :: "path \<Rightarrow> real"

text \<open>
  The methods \<open>exists\<close>, \<open>is_dir\<close> and \<open>is_file\<close> of \<open>pathlib.Path\<close> call \<open>stat\<close>
  and answer false when it raises.
\<close>

definition exists :: "filesystem \<Rightarrow> path \<Rightarrow> bool" where
  "exists f p = (stat_kind f p \<noteq> None)"

definition is_dir :: "filesystem \<Rightarrow> path \<Rightarrow> bool" where
  "is_dir f p = (stat_kind f p = Some Directory)"

definition is_file :: "filesystem \<Rightarrow> path \<Rightarrow> bool" where
  "is_file f p = (stat_kind f p = Some RegularFile)"

text \<open>
  Exceptions: FastAPI's \<open>HTTPException\<close> with its status code and detail, and any other
  exception, carrying what \<open>str(e)\<close> gives for it.
\<close>

datatype exn = HTTPException nat string | Exception string

fun str_nat :: "nat \<Rightarrow> string" where
  "str_nat n =
     (if n < 10 then [char_of (48 + n)]
      else str_nat (n div 10) @ [char_of (48 + n mod 10)])"

text \<open>\<open>str(e)\<close>: Starlette renders an \<open>HTTPException\<close> as its status code, a colon and its detail.\<close>

fun str_exn :: "exn \<Rightarrow> string" where
  "str_exn (HTTPException code detail) = str_nat code @ '': '' @ detail"
| "str_exn (Exception msg) = msg"

subsection \<open>config.py\<close>

record config =
  NEXTCLOUD_PATH :: string
  OLLAMA_MODEL :: string
  EMBEDDING_MODEL :: string
  DEFAULT_COLLECTION :: string
  CHROMA_PATH :: string

subsection \<open>Documents, the text splitter, the vector store\<close>

record metadata =
  source :: string
  filename :: string
  file_type :: string
  file_size :: nat
  last_modified :: real

record document =
  page_content :: string
  metadata :: metadata

datatype length_function = Len

record text_splitter =
  chunk_size :: nat
  chunk_overlap :: nat
  length_function :: length_function
  separators :: "string list"

record ollama_embeddings =
  model :: string

record vector_db =
  collection_name :: string
  persist_directory :: string
  embedding_function :: ollama_embeddings

text \<open>
  The state outside the process: every vector-store handle constructed so far, and the
  documents of each persistent collection, keyed by persistence directory and collection
  name.
\<close>

record world =
  handles :: "vector_db list"
  store :: "string \<times> string \<Rightarrow> document list"

text \<open>
  Values of Python's dynamic types, as a JSON payload or a \<open>Dict[str, Any]\<close> holds them:
  \<open>None\<close>, an integer, a string, a dictionary, or a value of any other type (a Boolean,
  a float, a list), given by the name of its type and what \<open>str\<close> renders it as.
\<close>

datatype json =
  JNone | JInt int | JStr string | JObj "(string \<times> json) list" | JOther string string

text \<open>
  The external libraries. \<open>partition e s\<close> is \<open>partition(filename=s)\<close> with every element
  rendered by \<open>str\<close>, or the exception it raises; \<open>split_documents e ts docs\<close> is the
  splitter \<open>ts\<close> applied to \<open>docs\<close>, or the exception it raises; \<open>add_error e db docs\<close> is the
  exception \<open>db.add_documents(docs)\<close> raises, if any; \<open>persist e\<close> is the handle's
  \<open>persist\<close> method when the handle has that attribute, giving the exception it raises, if
  any; \<open>rag_query e q\<close> is the query function of \<open>src/llm_query.py\<close>, which returns a
  string or \<open>None\<close> or raises, and may change the world; \<open>repr_dict e\<close> is what \<open>str\<close>
  renders a dictionary as.
\<close>

record env =
  fs :: filesystem
  partition :: "string \<Rightarrow> exn + string list"
  split_documents :: "text_splitter \<Rightarrow> document list \<Rightarrow> exn + document list"
  add_error :: "vector_db \<Rightarrow> document list \<Rightarrow> exn option"
  persist :: "(vector_db \<Rightarrow> exn option) option"
  rag_query :: "string \<Rightarrow> world \<Rightarrow> (exn + string option) \<times> world"
  repr_dict :: "(string \<times> json) list \<Rightarrow> string"

section \<open>get\_vector\_db.py\<close>

text \<open>
  \<open>get_vector_db()\<close> reads the module's \<open>config\<close> and constructs an embedding handle and a
  Chroma handle; the construction is recorded in the world.
\<close>

definition get_vector_db :: "config \<Rightarrow> world \<Rightarrow> vector_db \<times> world" where
  "get_vector_db cfg w =
     (let embedding = \<lparr> model = EMBEDDING_MODEL cfg \<rparr>;
          db = \<lparr> collection_name = DEFAULT_COLLECTION cfg,
                 persist_directory = CHROMA_PATH cfg,
                 embedding_function = embedding \<rparr>
      in (db, w\<lparr> handles := handles w @ [db] \<rparr>))"

text \<open>
  \<open>db.add_documents(docs)\<close>: the documents are appended to the handle's collection, or the
  call raises and the collection is as before.
\<close>

definition add_documents :: "env \<Rightarrow> vector_db \<Rightarrow> document list \<Rightarrow> world \<Rightarrow> exn + world" where
  "add_documents e db docs w =
     (case add_error e db docs of
        Some ex \<Rightarrow> Inl ex
      | None \<Rightarrow>
          (let k = (persist_directory db, collection_name db)
           in Inr (w\<lparr> store := (store w)(k := store w k @ docs) \<rparr>)))"

section \<open>embeddings.py\<close>

record document_embedder =
  config :: config
  text_splitter :: text_splitter
  supported_extensions :: "string set"

definition DocumentEmbedder :: "config \<Rightarrow> document_embedder" where
  "DocumentEmbedder cfg =
     \<lparr> config = cfg,
       text_splitter =
         \<lparr> chunk_size = 1000, chunk_overlap = 200, length_function = Len,
           separators = [[CHR 0x0A, CHR 0x0A], [CHR 0x0A], '' '', ''''] \<rparr>,
       supported_extensions =
         {''.pdf'', ''.docx'', ''.doc'', ''.txt'', ''.md'', ''.html'', ''.htm'',
          ''.rtf'', ''.odt'', ''.csv'', ''.xlsx'', ''.xls'', ''.pptx'', ''.ppt''} \<rparr>"

definition is_supported_file :: "document_embedder \<Rightarrow> path \<Rightarrow> bool" where
  "is_supported_file self file_path = (lower (suffix file_path) \<in> supported_extensions self)"

text \<open>
  \<open>load_document\<close> returns the empty list when anything inside its \<open>try\<close> raises: the
  call of \<open>partition\<close>, or the calls of \<open>file_path.stat()\<close> for the metadata, which
  raise when the path does not exist.
\<close>

definition load_document :: "env \<Rightarrow> document_embedder \<Rightarrow> path \<Rightarrow> document list" where
  "load_document e self file_path =
     (case partition e (str_path file_path) of
        Inl ex \<Rightarrow> []
      | Inr elements \<Rightarrow>
          (let text_content = join [CHR 0x0A, CHR 0x0A] elements
           in case stat_kind (fs e) file_path of
                None \<Rightarrow> []
              | Some kind \<Rightarrow>
                  (let doc = \<lparr> page_content = text_content,
                               metadata = \<lparr> source = str_path file_path,
                                            filename = name file_path,
                                            file_type = lower (suffix file_path),
                                            file_size = st_size (fs e) file_path,
                                            last_modified = st_mtime (fs e) file_path \<rparr> \<rparr>
                   in [doc])))"

definition chunk_documents :: "env \<Rightarrow> document_embedder \<Rightarrow> document list \<Rightarrow> document list" where
  "chunk_documents e self documents =
     (case split_documents e (text_splitter self) documents of
        Inl ex \<Rightarrow> []
      | Inr chunks \<Rightarrow> chunks)"

text \<open>
  The loop of \<open>process_directory\<close> over the paths of the walk, with its two accumulators
  \<open>all_documents\<close> and \<open>processed_files\<close>.
\<close>

fun process_loop ::
  "env \<Rightarrow> document_embedder \<Rightarrow> path list \<Rightarrow> document list \<times> nat \<Rightarrow> document list \<times> nat" where
  "process_loop e self [] acc = acc"
| "process_loop e self (file_path # rest) (all_documents, processed_files) =
     (if is_file (fs e) file_path \<and> is_supported_file self file_path
      then (let documents = load_document e self file_path
            in if documents \<noteq> []
               then process_loop e self rest (all_documents @ documents, processed_files + 1)
               else process_loop e self rest (all_documents, processed_files))
      else process_loop e self rest (all_documents, processed_files))"

definition process_directory :: "env \<Rightarrow> document_embedder \<Rightarrow> string option \<Rightarrow> document list" where
  "process_directory e self directory_path =
     (let directory_path =
            (case directory_path of None \<Rightarrow> NEXTCLOUD_PATH (config self) | Some d \<Rightarrow> d);
          dir_path = Path directory_path
      in if \<not> exists (fs e) dir_path then []
         else if \<not> is_dir (fs e) dir_path then []
         else (let (all_documents, processed_files) =
                     process_loop e self (rglob (fs e) dir_path) ([], 0)
               in if all_documents \<noteq> [] then chunk_documents e self all_documents else []))"

definition embed_documents ::
  "env \<Rightarrow> config \<Rightarrow> document_embedder \<Rightarrow> string option \<Rightarrow> world \<Rightarrow> bool \<times> world" where
  "embed_documents e gcfg self directory_path w =
     (let chunks = process_directory e self directory_path
      in if chunks = [] then (False, w)
         else (let (db, w1) = get_vector_db gcfg w
               in case add_documents e db chunks w1 of
                    Inl ex \<Rightarrow> (False, w1)
                  | Inr w2 \<Rightarrow>
                      (case persist e of
                         None \<Rightarrow> (True, w2)
                       | Some persist_db \<Rightarrow>
                           (case persist_db db of
                              Some ex \<Rightarrow> (False, w2)
                            | None \<Rightarrow> (True, w2)))))"

text \<open>
  \<open>get_file_stats\<close> returns either the dictionary with the key \<open>error\<close> or the
  statistics dictionary; \<open>stats_loop\<close> is its loop over the paths of the walk.
\<close>

record stats =
  total_files :: nat
  supported_files :: nat
  file_types :: "string \<rightharpoonup> nat"
  total_size :: nat

datatype stats_result = StatsError string | Stats stats

fun stats_loop :: "filesystem \<Rightarrow> document_embedder \<Rightarrow> path list \<Rightarrow> stats \<Rightarrow> stats" where
  "stats_loop f self [] st = st"
| "stats_loop f self (file_path # rest) st =
     (if is_file f file_path
      then (let st1 = st\<lparr> total_files := total_files st + 1 \<rparr>;
                st2 = st1\<lparr> total_size := total_size st1 + st_size f file_path \<rparr>
            in if is_supported_file self file_path
               then (let st3 = st2\<lparr> supported_files := supported_files st2 + 1 \<rparr>;
                         ext = lower (suffix file_path);
                         n = (case file_types st3 ext of None \<Rightarrow> 0 | Some c \<Rightarrow> c)
                     in stats_loop f self rest (st3\<lparr> file_types := (file_types st3)(ext \<mapsto> n + 1) \<rparr>))
               else stats_loop f self rest st2)
      else stats_loop f self rest st)"

definition get_file_stats :: "env \<Rightarrow> document_embedder \<Rightarrow> string option \<Rightarrow> stats_result" where
  "get_file_stats e self directory_path =
     (let directory_path =
            (case directory_path of None \<Rightarrow> NEXTCLOUD_PATH (config self) | Some d \<Rightarrow> d);
          dir_path = Path directory_path
      in if \<not> exists (fs e) dir_path then StatsError ''Directory does not exist''
         else Stats (stats_loop (fs e) self (rglob (fs e) dir_path)
                \<lparr> total_files = 0, supported_files = 0, file_types = Map.empty, total_size = 0 \<rparr>))"

section \<open>backend/app.py\<close>

text \<open>
  An endpoint is a function of the world that returns either the exception FastAPI turns
  into an error response (an \<open>HTTPException\<close> with its status code) or the response
  model, together with the world it leaves. The module's \<open>config\<close> and \<open>embedder\<close>
  are arguments.
\<close>

record QueryRequest =
  query :: string
  collection :: "string option"

record QueryResponse =
  message :: string
  sources :: "string list option"

record IngestRequest =
  directory_path :: "string option"
  collection :: "string option"

record IngestResponse =
  message :: string
  files_processed :: nat
  chunks_created :: nat

record StatusResponse =
  status :: string
  ollama_model :: string
  embedding_model :: string
  collections_available :: "string list"

record CollectionsResponse =
  collections :: "(string \<times> json) list list"

definition ingest_documents ::
  "env \<Rightarrow> config \<Rightarrow> document_embedder \<Rightarrow> IngestRequest \<Rightarrow> world \<Rightarrow> (exn + IngestResponse) \<times> world" where
  "ingest_documents e gcfg embedder request w =
     (let stats_before = get_file_stats e embedder (directory_path request);
          (success, w1) = embed_documents e gcfg embedder (directory_path request) w;
          body =
            (if \<not> success then Inl (HTTPException 400 ''Failed to ingest documents'')
             else (let stats_after = get_file_stats e embedder (directory_path request)
                   in Inr \<lparr> message = ''Documents ingested successfully'',
                            files_processed =
                              (case stats_after of
                                 StatsError msg \<Rightarrow> 0
                               | Stats st \<Rightarrow> supported_files st),
                            chunks_created = 0 \<rparr>))
      in case body of
           Inl ex \<Rightarrow> (Inl (HTTPException 500 (''Ingestion failed: '' @ str_exn ex)), w1)
         | Inr response \<Rightarrow> (Inr response, w1))"


definition get_status :: "config \<Rightarrow> world \<Rightarrow> (exn + StatusResponse) \<times> world" where
  "get_status cfg w =
     (Inr \<lparr> status = ''healthy'',
            ollama_model = OLLAMA_MODEL cfg,
            embedding_model = EMBEDDING_MODEL cfg,
            collections_available = [DEFAULT_COLLECTION cfg] \<rparr>, w)"

definition list_collections :: "config \<Rightarrow> world \<Rightarrow> (exn + CollectionsResponse) \<times> world" where
  "list_collections cfg w =
     (let collections =
            [[(''name'', JStr (DEFAULT_COLLECTION cfg)),
              (''document_count'', JInt 0),
              (''last_updated'', JNone),
              (''description'', JStr ''Default document collection'')]]
      in (Inr \<lparr> collections = collections \<rparr>, w))"

section \<open>webhooks.py\<close>

text \<open>
  \<open>type_name\<close> is the name of a value's type and \<open>str_json\<close> what an f-string renders
  the value as. \<open>dict_get v k d\<close> is the call \<open>v.get(k, d)\<close>, which raises an
  \<open>AttributeError\<close> unless \<open>v\<close> is a dictionary.
\<close>

fun type_name :: "json \<Rightarrow> string" where
  "type_name JNone = ''NoneType''"
| "type_name (JInt i) = ''int''"
| "type_name (JStr s) = ''str''"
| "type_name (JObj kvs) = ''dict''"
| "type_name (JOther t r) = t"

definition attribute_error :: "json \<Rightarrow> string \<Rightarrow> exn" where
  "attribute_error v attr =
     Exception ([CHR 0x27] @ type_name v @ [CHR 0x27] @ '' object has no attribute ''
                @ [CHR 0x27] @ attr @ [CHR 0x27])"

definition str_int :: "int \<Rightarrow> string" where
  "str_int i = (if i < 0 then ''-'' @ str_nat (nat (- i)) else str_nat (nat i))"

fun str_json :: "env \<Rightarrow> json \<Rightarrow> string" where
  "str_json e JNone = ''None''"
| "str_json e (JInt i) = str_int i"
| "str_json e (JStr s) = s"
| "str_json e (JObj kvs) = repr_dict e kvs"
| "str_json e (JOther t r) = r"

fun dict_get :: "json \<Rightarrow> string \<Rightarrow> json \<Rightarrow> exn + json" where
  "dict_get (JObj kvs) k d = Inr (case map_of kvs k of None \<Rightarrow> d | Some v \<Rightarrow> v)"
| "dict_get v k d = Inl (attribute_error v ''get'')"

definition convert_nextcloud_path_to_filesystem ::
  "env \<Rightarrow> config \<Rightarrow> json \<Rightarrow> json \<Rightarrow> exn + string" where
  "convert_nextcloud_path_to_filesystem e cfg nc_path user_id =
     (case nc_path of
        JStr s \<Rightarrow>
          (let relative_path = replace (''/'' @ str_json e user_id @ ''/files/'') [] s;
               base_path = NEXTCLOUD_PATH cfg @ ''/'' @ str_json e user_id @ ''/files''
           in Inr (os_path_join base_path relative_path))
      | _ \<Rightarrow> Inl (attribute_error nc_path ''replace''))"

definition handle_file_created ::
  "env \<Rightarrow> config \<Rightarrow> document_embedder \<Rightarrow> string \<Rightarrow> world \<Rightarrow> (string \<times> string) list \<times> world" where
  "handle_file_created e gcfg embedder file_path w =
     (let file_path_obj = Path file_path;
          failed = (\<lambda>ex. [(''status'', ''failed''),
                          (''file'', ''Failed to process file: '' @ str_exn ex)])
      in if \<not> exists (fs e) file_path_obj
         then (failed (Exception (''File does not exist: '' @ file_path)), w)
         else if \<not> is_supported_file embedder file_path_obj
         then ([(''status'', ''failed''),
                (''file'', ''File type not supported: '' @ suffix file_path_obj)], w)
         else (let documents = load_document e embedder file_path_obj
               in if documents = [] then (failed (Exception ''Failed to load document''), w)
                  else (let chunks = chunk_documents e embedder documents;
                            (db, w1) = get_vector_db gcfg w
                        in case add_documents e db chunks w1 of
                             Inl ex \<Rightarrow> (failed ex, w1)
                           | Inr w2 \<Rightarrow> ([(''status'', ''success''), (''file'', file_path)], w2))))"

definition NodeCreatedEvent :: string where
  "NodeCreatedEvent =
     ''OCP'' @ [CHR 0x5C] @ ''Files'' @ [CHR 0x5C] @ ''Events'' @ [CHR 0x5C] @ ''Node''
     @ [CHR 0x5C] @ ''NodeCreatedEvent''"

definition nextcloud_webhook ::
  "env \<Rightarrow> config \<Rightarrow> document_embedder \<Rightarrow> (string \<times> json) list \<Rightarrow> world
     \<Rightarrow> (string \<times> string) list \<times> world" where
  "nextcloud_webhook e cfg embedder payload w =
     (let error = (\<lambda>ex. ([(''status'', ''error''), (''message'', str_exn ex)], w));
          event = (case map_of payload ''event'' of None \<Rightarrow> JObj [] | Some v \<Rightarrow> v);
          user = (case map_of payload ''user'' of None \<Rightarrow> JObj [] | Some v \<Rightarrow> v)
      in case dict_get event ''class'' (JStr []) of
           Inl ex \<Rightarrow> error ex
         | Inr event_type \<Rightarrow>
             (case dict_get event ''node'' (JObj []) of
                Inl ex \<Rightarrow> error ex
              | Inr node \<Rightarrow>
                  (case dict_get node ''path'' (JStr []) of
                     Inl ex \<Rightarrow> error ex
                   | Inr file_path \<Rightarrow>
                       (case dict_get user ''uid'' (JStr []) of
                          Inl ex \<Rightarrow> error ex
                        | Inr user_id \<Rightarrow>
                            (case convert_nextcloud_path_to_filesystem e cfg file_path user_id of
                               Inl ex \<Rightarrow> error ex
                             | Inr actual_file_path \<Rightarrow>
                                 if event_type = JStr NodeCreatedEvent
                                 then handle_file_created e cfg embedder actual_file_path w
                                 else ([(''status'', ''ignored''),
                                        (''reason'', ''Event type not handled'')], w))))))"

section \<open>app.py: the chat input handler\<close>

text \<open>
  A message of the history is a dictionary with the keys \<open>role\<close>, \<open>content\<close> and
  \<open>timestamp\<close>. The handler runs when the script is run with the value of the chat
  input (\<open>None\<close> when nothing was submitted); \<open>timestamp'\<close> and \<open>response_timestamp\<close>
  are what the clock gives at the handler's two readings. The calls that only draw the page
  are left out.
\<close>

record chat_message =
  role :: string
  content :: string
  timestamp :: string

definition not_found_msg :: string where
  "not_found_msg =
     ''I couldn'' @ [CHR 0x27] @ ''t find relevant information to answer your question. ''
     @ ''Please try rephrasing or check if your files are properly indexed.''"

definition chat_input ::
  "env \<Rightarrow> string \<Rightarrow> string \<Rightarrow> string option \<Rightarrow> chat_message list \<Rightarrow> world
     \<Rightarrow> chat_message list \<times> world" where
  "chat_input e timestamp' response_timestamp prompt messages w =
     (case prompt of
        None \<Rightarrow> (messages, w)
      | Some p \<Rightarrow>
          if p = [] then (messages, w)
          else (let messages1 = messages @ [\<lparr> role = ''user'', content = p, timestamp = timestamp' \<rparr>];
                    (result, w1) = rag_query e p w;
                    assistant = (\<lambda>c. \<lparr> role = ''assistant'', content = c,
                                       timestamp = response_timestamp \<rparr>)
                in case result of
                     Inr (Some response) \<Rightarrow>
                       if response \<noteq> [] then (messages1 @ [assistant response], w1)
                       else (messages1 @ [assistant not_found_msg], w1)
                   | Inr None \<Rightarrow> (messages1 @ [assistant not_found_msg], w1)
                   | Inl ex \<Rightarrow>
                       (messages1 @ [assistant (''Sorry, I encountered an error: '' @ str_exn ex)], w1)))"

section \<open>The claims in the specification's words\<close>

text \<open>The sum of the per-extension counts of a \<open>file_types\<close> dictionary.\<close>

definition sum_counts :: "(string \<rightharpoonup> nat) \<Rightarrow> nat" where
  "sum_counts m = (\<Sum>k\<in>dom m. the (m k))"

text \<open>
  The ingestion pipeline as the specification describes it: the regular files of the walk
  whose extension is supported; each of them parsed by the partitioning library and wrapped
  as one document, whose text is the parsed elements joined by blank lines and whose
  metadata are the source path, the file name, the lowercased file type, the file size and
  the last-modified time (and no document when the library raises); the documents collected
  in the order of the walk and split into chunks by the text splitter (no chunks when there
  is no document or the splitter raises).
\<close>

definition kept_files :: "env \<Rightarrow> document_embedder \<Rightarrow> path \<Rightarrow> path list" where
  "kept_files e self dir_path =
     filter (\<lambda>p. is_file (fs e) p \<and> lower (suffix p) \<in> supported_extensions self)
       (rglob (fs e) dir_path)"

definition parse_file :: "env \<Rightarrow> path \<Rightarrow> document list" where
  "parse_file e p =
     (case partition e (str_path p) of
        Inl ex \<Rightarrow> []
      | Inr elements \<Rightarrow>
          [\<lparr> page_content = join [CHR 0x0A, CHR 0x0A] elements,
             metadata = \<lparr> source = str_path p, filename = name p, file_type = lower (suffix p),
                          file_size = st_size (fs e) p, last_modified = st_mtime (fs e) p \<rparr> \<rparr>])"

definition ingestion_chunks :: "env \<Rightarrow> document_embedder \<Rightarrow> path \<Rightarrow> document list" where
  "ingestion_chunks e self dir_path =
     (let docs = concat (map (parse_file e) (kept_files e self dir_path))
      in if docs = [] then []
         else (case split_documents e (text_splitter self) docs of
                 Inl ex \<Rightarrow> []
               | Inr chunks \<Rightarrow> chunks))"

text \<open>
  The store accepts the chunks through a handle: adding them raises nothing, and neither
  does persisting when the handle has a \<open>persist\<close> method.
\<close>

definition store_accepts :: "env \<Rightarrow> vector_db \<Rightarrow> document list \<Rightarrow> bool" where
  "store_accepts e db chunks =
     (add_error e db chunks = None \<and>
      (case persist e of None \<Rightarrow> True | Some persist_db \<Rightarrow> persist_db db = None))"

text \<open>The directory a call works on: the argument, or the configured default.\<close>

definition target_dir :: "document_embedder \<Rightarrow> string option \<Rightarrow> path" where
  "target_dir self dp =
     Path (case dp of None \<Rightarrow> NEXTCLOUD_PATH (config self) | Some d \<Rightarrow> d)"

text \<open>
  The webhook claim in the specification's words. \<open>payload_of cls nc_path uid payload\<close>:
  the payload's event and user are dictionaries and it carries the event class \<open>cls\<close>,
  the NextCloud path \<open>nc_path\<close> and the user id \<open>uid\<close>, all three strings.
  \<open>event_class payload\<close> is the event class the endpoint reads, if reading it raises
  nothing. \<open>translated_path cfg uid rel\<close> joins \<open>NEXTCLOUD_PATH\<close>, the user id,
  \<open>files\<close> and the relative path.
\<close>

definition payload_of :: "string \<Rightarrow> string \<Rightarrow> string \<Rightarrow> (string \<times> json) list \<Rightarrow> bool" where
  "payload_of cls nc_path uid payload =
     ((case map_of payload ''event'' of
         Some (JObj event) \<Rightarrow>
           map_of event ''class'' = Some (JStr cls) \<and>
           (case map_of event ''node'' of
              Some (JObj node) \<Rightarrow> map_of node ''path'' = Some (JStr nc_path)
            | _ \<Rightarrow> False)
       | _ \<Rightarrow> False) \<and>
      (case map_of payload ''user'' of
         Some (JObj user) \<Rightarrow> map_of user ''uid'' = Some (JStr uid)
       | _ \<Rightarrow> False))"

definition event_class :: "(string \<times> json) list \<Rightarrow> json option" where
  "event_class payload =
     (case map_of payload ''event'' of
        None \<Rightarrow> Some (JStr [])
      | Some (JObj event) \<Rightarrow> Some (case map_of event ''class'' of None \<Rightarrow> JStr [] | Some v \<Rightarrow> v)
      | Some _ \<Rightarrow> None)"

definition translated_path :: "config \<Rightarrow> string \<Rightarrow> string \<Rightarrow> string" where
  "translated_path cfg uid rel = NEXTCLOUD_PATH cfg @ ''/'' @ uid @ ''/files/'' @ rel"

section \<open>A concrete installation\<close>

text \<open>
  A small installation on which the functions are evaluated. Below \<open>/data/admin/files\<close>
  there are a PDF, a subdirectory \<open>sub\<close> with a text file, a subdirectory \<open>pics\<close> with a
  picture and a subdirectory \<open>broken\<close> with a text file the parser rejects. A walk yields
  the entries below its directory in the order of \<open>ex_entries\<close>.
\<close>

definition ex_cfg :: config where
  "ex_cfg = \<lparr> NEXTCLOUD_PATH = ''/data'', OLLAMA_MODEL = ''qwen3:0.6b'',
              EMBEDDING_MODEL = ''all-minilm'', DEFAULT_COLLECTION = ''documents'',
              CHROMA_PATH = ''./chroma_db'' \<rparr>"

definition ex_entries :: "string list" where
  "ex_entries =
     [''/data/admin'', ''/data/admin/files'', ''/data/admin/files/report.pdf'',
      ''/data/admin/files/sub'', ''/data/admin/files/sub/Notes.TXT'',
      ''/data/admin/files/pics'', ''/data/admin/files/pics/photo.png'',
      ''/data/admin/files/broken'', ''/data/admin/files/broken/bad.txt'']"

definition ex_files :: "string list" where
  "ex_files =
     [''/data/admin/files/report.pdf'', ''/data/admin/files/sub/Notes.TXT'',
      ''/data/admin/files/pics/photo.png'', ''/data/admin/files/broken/bad.txt'']"

definition ex_fs :: filesystem where
  "ex_fs = \<lparr> stat_kind = (\<lambda>p. if str_path p \<in> set ex_files then Some RegularFile
                              else if str_path p \<in> set (''/data'' # ex_entries) then Some Directory
                              else None),
             rglob = (\<lambda>p. map Path (filter (startswith (str_path p @ ''/'')) ex_entries)),
             st_size = (\<lambda>p. 10 * length (name p)),
             st_mtime = (\<lambda>p. 0) \<rparr>"

definition ex_env :: env where
  "ex_env = \<lparr> fs = ex_fs,
              partition = (\<lambda>s. if s = ''/data/admin/files/broken/bad.txt''
                               then Inl (Exception ''unreadable'') else Inr [''Title'', s]),
              split_documents = (\<lambda>ts docs. Inr docs),
              add_error = (\<lambda>db docs. None),
              persist = None,
              rag_query = (\<lambda>q w. (if q = ''boom'' then Inl (Exception ''no model'')
                                     else if q = ''nothing'' then Inr None
                                     else Inr (Some (''answer to '' @ q)), w)),
              repr_dict = (\<lambda>kvs. ''{}'') \<rparr>"

text \<open>The same installation with a splitter that cuts every document in two.\<close>

definition ex_env_cut :: env where
  "ex_env_cut =
     ex_env\<lparr> split_documents := (\<lambda>ts docs. Inr (concat (map
        (\<lambda>doc. [doc\<lparr> page_content := take 5 (page_content doc) \<rparr>,
                 doc\<lparr> page_content := drop 5 (page_content doc) \<rparr>]) docs))) \<rparr>"

definition ex_world :: world where
  "ex_world = \<lparr> handles = [], store = (\<lambda>k. []) \<rparr>"

definition ex_payload :: "string \<Rightarrow> string \<Rightarrow> (string \<times> json) list" where
  "ex_payload cls nc_path =
     [(''user'', JObj [(''uid'', JStr ''admin'')]),
      (''event'', JObj [(''class'', JStr cls), (''node'', JObj [(''path'', JStr nc_path)])])]"

section \<open>Properties of the string functions\<close>

declare replace.simps [simp del]
declare str_nat.simps [simp del]

lemma lower_char_idem: "lower_char (lower_char c) = lower_char c"
  unfolding lower_char_def Let_def by auto

lemma lower_idem: "lower (lower s) = lower s"
  by (simp add: lower_def lower_char_idem)


lemma startswith_append: "startswith old (old @ s)"
  by (induction old) auto

lemma replace_absent: "old \<noteq> [] \<Longrightarrow> \<not> contains old s \<Longrightarrow> replace old new s = s"
proof (induction s)
  case Nil
  then show ?case by (simp add: replace.simps)
next
  case (Cons y ys)
  then have "\<not> startswith old (y # ys)" and "replace old new ys = ys" by auto
  then show ?case using Cons.prems(1) by (subst replace.simps) simp
qed

lemma replace_prefix:
  assumes "old \<noteq> []" and "\<not> contains old s"
  shows "replace old [] (old @ s) = s"
proof -
  have "replace old [] (old @ s) = replace old [] (drop (length old) (old @ s))"
    using assms(1) startswith_append [of old s] by (subst replace.simps) simp
  then show ?thesis using assms by (simp add: replace_absent)
qed

lemma str_nat_400: "str_nat 400 = ''400''"
  by code_simp

section \<open>Properties of the embedder\<close>

lemma sum_counts_bump:
  assumes "finite (dom m)"
  shows "sum_counts (m(k \<mapsto> (case m k of None \<Rightarrow> 0 | Some c \<Rightarrow> c) + 1)) = sum_counts m + 1"
proof (cases "m k")
  case None
  then have notin: "k \<notin> dom m" by auto
  have "(\<Sum>x\<in>dom m. the (if x = k then Some (Suc 0) else m x)) = (\<Sum>x\<in>dom m. the (m x))"
    using notin by (intro sum.cong) auto
  then show ?thesis using assms None notin by (simp add: sum_counts_def)
next
  case (Some c)
  then have kin: "k \<in> dom m" by auto
  then have same_dom: "insert k (dom m) = dom m" by auto
  have "(\<Sum>x\<in>dom m. the ((m(k \<mapsto> c + 1)) x)) =
        the ((m(k \<mapsto> c + 1)) k) + (\<Sum>x\<in>dom m - {k}. the ((m(k \<mapsto> c + 1)) x))"
    using assms kin by (rule sum.remove)
  also have "(\<Sum>x\<in>dom m - {k}. the ((m(k \<mapsto> c + 1)) x)) = (\<Sum>x\<in>dom m - {k}. the (m x))"
    by (intro sum.cong) auto
  also have "the ((m(k \<mapsto> c + 1)) k) = the (m k) + 1" using Some by simp
  finally have "(\<Sum>x\<in>dom m. the ((m(k \<mapsto> c + 1)) x)) = (\<Sum>x\<in>dom m. the (m x)) + 1"
    using sum.remove [OF assms kin, of "\<lambda>x. the (m x)"] by simp
  then show ?thesis using Some same_dom by (simp add: sum_counts_def)
qed

text \<open>The invariant of the loop of \<open>get_file_stats\<close>.\<close>

lemma stats_loop_inv:
  assumes "finite (dom (file_types st))"
    and "supported_files st \<le> total_files st"
    and "supported_files st = sum_counts (file_types st)"
    and "\<forall>k\<in>dom (file_types st). k \<in> supported_extensions self \<and> lower k = k"
  shows "finite (dom (file_types (stats_loop f self ps st))) \<and>
         supported_files (stats_loop f self ps st) \<le> total_files (stats_loop f self ps st) \<and>
         supported_files (stats_loop f self ps st) = sum_counts (file_types (stats_loop f self ps st)) \<and>
         (\<forall>k\<in>dom (file_types (stats_loop f self ps st)). k \<in> supported_extensions self \<and> lower k = k)"
  using assms
proof (induction ps arbitrary: st)
  case Nil
  then show ?case by simp
next
  case (Cons p ps)
  show ?case
  proof (cases "is_file f p")
    case False
    then have step: "stats_loop f self (p # ps) st = stats_loop f self ps st" by simp
    show ?thesis unfolding step using Cons.prems by (intro Cons.IH)
  next
    case isfile: True
    show ?thesis
    proof (cases "is_supported_file self p")
      case True
      let ?ext = "lower (suffix p)"
      let ?st' = "st\<lparr> total_files := total_files st + 1,
                      total_size := total_size st + st_size f p,
                      supported_files := supported_files st + 1,
                      file_types := (file_types st)
                        (?ext \<mapsto> (case file_types st ?ext of None \<Rightarrow> 0 | Some c \<Rightarrow> c) + 1) \<rparr>"
      have step: "stats_loop f self (p # ps) st = stats_loop f self ps ?st'"
        using isfile True by (simp add: Let_def)
      have "supported_files ?st' = sum_counts (file_types ?st')"
        using Cons.prems(1,3) sum_counts_bump [of "file_types st" ?ext] by simp
      moreover have "\<forall>k\<in>dom (file_types ?st'). k \<in> supported_extensions self \<and> lower k = k"
        using Cons.prems(4) True by (auto simp: is_supported_file_def lower_idem)
      moreover have "finite (dom (file_types ?st'))" and "supported_files ?st' \<le> total_files ?st'"
        using Cons.prems(1,2) by simp_all
      ultimately show ?thesis unfolding step by (intro Cons.IH)
    next
      case False
      let ?st' = "st\<lparr> total_files := total_files st + 1,
                      total_size := total_size st + st_size f p \<rparr>"
      have step: "stats_loop f self (p # ps) st = stats_loop f self ps ?st'"
        using isfile False by (simp add: Let_def)
      show ?thesis unfolding step using Cons.prems by (intro Cons.IH) simp_all
    qed
  qed
qed

lemma stats_loop_totals:
  "total_files (stats_loop f self ps st) = total_files st + length (filter (is_file f) ps) \<and>
   total_size (stats_loop f self ps st) =
     total_size st + sum_list (map (st_size f) (filter (is_file f) ps))"
  by (induction ps arbitrary: st) (auto simp: Let_def)

lemma process_loop_docs:
  "fst (process_loop e self ps (docs, n)) =
     docs @ concat (map (load_document e self)
       (filter (\<lambda>p. is_file (fs e) p \<and> is_supported_file self p) ps))"
  by (induction ps arbitrary: docs n) (auto simp: Let_def)

text \<open>
  On a path that exists \<open>stat\<close> raises nothing, so \<open>load_document\<close> is the parse of the
  file; a regular file exists.
\<close>

lemma load_document_existing: "exists (fs e) p \<Longrightarrow> load_document e self p = parse_file e p"
  by (auto simp: load_document_def parse_file_def exists_def Let_def split: sum.splits)

lemma load_document_regular: "is_file (fs e) p \<Longrightarrow> load_document e self p = parse_file e p"
  by (rule load_document_existing) (simp add: is_file_def exists_def)

lemma load_document_missing: "\<not> exists (fs e) p \<Longrightarrow> load_document e self p = []"
  by (simp add: load_document_def exists_def Let_def split: sum.splits)

lemma kept_documents:
  "concat (map (load_document e self) (kept_files e self d)) =
   concat (map (parse_file e) (kept_files e self d))"
proof -
  have "map (load_document e self) (kept_files e self d) = map (parse_file e) (kept_files e self d)"
    by (rule map_cong) (simp_all add: kept_files_def load_document_regular)
  then show ?thesis by (rule arg_cong [where f = concat])
qed

lemma process_directory_pipeline:
  "process_directory e self dp =
     (if exists (fs e) (target_dir self dp) \<and> is_dir (fs e) (target_dir self dp)
      then ingestion_chunks e self (target_dir self dp) else [])"
proof -
  let ?d = "target_dir self dp"
  have loop: "fst (process_loop e self (rglob (fs e) ?d) ([], 0)) =
      concat (map (parse_file e) (kept_files e self ?d))"
    using kept_documents [of e self ?d]
    by (simp add: process_loop_docs kept_files_def is_supported_file_def [abs_def])
  show ?thesis
    using loop
    by (simp add: process_directory_def target_dir_def [symmetric] ingestion_chunks_def
        chunk_documents_def Let_def split_beta)
qed

lemma embed_documents_result:
  "embed_documents e gcfg self dp w =
     (let chunks = process_directory e self dp;
          db = fst (get_vector_db gcfg w)
      in if chunks = [] then (False, w)
         else if add_error e db chunks \<noteq> None then (False, snd (get_vector_db gcfg w))
         else (store_accepts e db chunks,
               \<lparr> handles = handles w @ [db],
                 store = (store w)((persist_directory db, collection_name db) :=
                           store w (persist_directory db, collection_name db) @ chunks) \<rparr>))"
  by (auto simp: embed_documents_def store_accepts_def add_documents_def get_vector_db_def Let_def
      split: option.splits)

section \<open>The claims\<close>

text \<open>
  C2. Whatever configuration a \<open>DocumentEmbedder\<close> is constructed with, its text
  splitter has chunk size 1000, chunk overlap 200 and the separators blank line, newline,
  space and the empty string; two embedders of different configurations have the same
  splitter, and it is the splitter with these parameters that chunking applies.
\<close>

theorem text_splitter_parameters_fixed:
  "chunk_size (text_splitter (DocumentEmbedder cfg)) = 1000 \<and>
   chunk_overlap (text_splitter (DocumentEmbedder cfg)) = 200 \<and>
   separators (text_splitter (DocumentEmbedder cfg)) = [[CHR 0x0A, CHR 0x0A], [CHR 0x0A], '' '', ''''] \<and>
   text_splitter (DocumentEmbedder cfg) = text_splitter (DocumentEmbedder cfg') \<and>
   chunk_documents e (DocumentEmbedder cfg) docs =
     (case split_documents e
        \<lparr> chunk_size = 1000, chunk_overlap = 200, length_function = Len,
          separators = [[CHR 0x0A, CHR 0x0A], [CHR 0x0A], '' '', ''''] \<rparr> docs of
        Inl ex \<Rightarrow> [] | Inr chunks \<Rightarrow> chunks)"
  by (simp add: DocumentEmbedder_def chunk_documents_def)

text \<open>
  C6. Every call of \<open>get_vector_db\<close> constructs one more handle: its collection name is
  the configured default collection, its persistence directory the configured Chroma
  path, its embedding function is built from the configured embedding model; the call
  adds this handle to those constructed so far and leaves the stored documents alone, and
  the handle is the same whatever the state of the world, so it depends on the
  configuration only.
\<close>

theorem get_vector_db_from_config:
  "collection_name (fst (get_vector_db cfg w)) = DEFAULT_COLLECTION cfg \<and>
   persist_directory (fst (get_vector_db cfg w)) = CHROMA_PATH cfg \<and>
   model (embedding_function (fst (get_vector_db cfg w))) = EMBEDDING_MODEL cfg \<and>
   handles (snd (get_vector_db cfg w)) = handles w @ [fst (get_vector_db cfg w)] \<and>
   store (snd (get_vector_db cfg w)) = store w \<and>
   fst (get_vector_db cfg w) = fst (get_vector_db cfg w')"
  by (simp add: get_vector_db_def Let_def)

text \<open>
  C5. The collection endpoints are stubs. In every state of the world \<open>GET /collections\<close>
  answers with exactly one entry, whose name is the configured default collection and whose
  document count is 0, and \<open>GET /status\<close> reports the available collections as the list of
  just the configured default collection; both answers are the same in any two states of
  the world, and neither endpoint changes it.
\<close>

theorem collection_endpoints_are_stubs:
  "(\<exists>entry. fst (list_collections cfg w) = Inr \<lparr> collections = [entry] \<rparr> \<and>
            map_of entry ''name'' = Some (JStr (DEFAULT_COLLECTION cfg)) \<and>
            map_of entry ''document_count'' = Some (JInt 0)) \<and>
   (\<exists>response. fst (get_status cfg w) = Inr response \<and>
            collections_available response = [DEFAULT_COLLECTION cfg]) \<and>
   fst (list_collections cfg w) = fst (list_collections cfg w') \<and>
   fst (get_status cfg w) = fst (get_status cfg w') \<and>
   snd (list_collections cfg w) = w \<and> snd (get_status cfg w) = w"
  by (simp add: list_collections_def get_status_def Let_def)

text \<open>
  C8. For every directory that exists, \<open>get_file_stats\<close> returns statistics in which
  \<open>supported_files\<close> is at most \<open>total_files\<close>, \<open>supported_files\<close> is the sum of the
  counts in \<open>file_types\<close>, every key of \<open>file_types\<close> is a lowercased extension of the
  supported set, \<open>total_files\<close> is the number of regular files of the walk and
  \<open>total_size\<close> the sum of their sizes.
\<close>

theorem get_file_stats_invariants:
  assumes "exists (fs e) (target_dir self dp)"
  shows "\<exists>st. get_file_stats e self dp = Stats st \<and>
           supported_files st \<le> total_files st \<and>
           supported_files st = sum_counts (file_types st) \<and>
           (\<forall>k\<in>dom (file_types st). k \<in> supported_extensions self \<and> lower k = k) \<and>
           total_files st = length (filter (is_file (fs e)) (rglob (fs e) (target_dir self dp))) \<and>
           total_size st =
             sum_list (map (st_size (fs e)) (filter (is_file (fs e)) (rglob (fs e) (target_dir self dp))))"
proof -
  let ?init = "\<lparr> total_files = 0, supported_files = 0, file_types = Map.empty, total_size = 0 \<rparr>"
  let ?st = "stats_loop (fs e) self (rglob (fs e) (target_dir self dp)) ?init"
  have result: "get_file_stats e self dp = Stats ?st"
    using assms by (simp add: get_file_stats_def target_dir_def)
  have "finite (dom (file_types ?st)) \<and> supported_files ?st \<le> total_files ?st \<and>
        supported_files ?st = sum_counts (file_types ?st) \<and>
        (\<forall>k\<in>dom (file_types ?st). k \<in> supported_extensions self \<and> lower k = k)"
    by (rule stats_loop_inv) (simp_all add: sum_counts_def)
  moreover have "total_files ?st = length (filter (is_file (fs e)) (rglob (fs e) (target_dir self dp)))"
    and "total_size ?st =
           sum_list (map (st_size (fs e)) (filter (is_file (fs e)) (rglob (fs e) (target_dir self dp))))"
    using stats_loop_totals [of "fs e" self "rglob (fs e) (target_dir self dp)" ?init] by simp_all
  ultimately show ?thesis using result by blast
qed

theorem get_file_stats_invariants_witness:
  "exists (fs ex_env) (target_dir (DocumentEmbedder ex_cfg) (Some ''/data/admin/files'')) \<and>
   (\<exists>st. get_file_stats ex_env (DocumentEmbedder ex_cfg) (Some ''/data/admin/files'') = Stats st \<and>
      supported_files st \<le> total_files st \<and>
      supported_files st = sum_counts (file_types st) \<and>
      total_files st = 4 \<and> total_size st = 350)"
proof -
  have there: "exists (fs ex_env) (target_dir (DocumentEmbedder ex_cfg) (Some ''/data/admin/files''))"
    by code_simp
  have files: "length (filter (is_file (fs ex_env))
      (rglob (fs ex_env) (target_dir (DocumentEmbedder ex_cfg) (Some ''/data/admin/files'')))) = 4"
    by code_simp
  have sizes: "sum_list (map (st_size (fs ex_env)) (filter (is_file (fs ex_env))
      (rglob (fs ex_env) (target_dir (DocumentEmbedder ex_cfg) (Some ''/data/admin/files''))))) = 350"
    by code_simp
  show ?thesis
    using get_file_stats_invariants [OF there] there files sizes by auto
qed

text \<open>
  C10. If the target directory does not exist, or is not a directory, or holds no
  supported file, or its supported files yield no chunk, then \<open>embed_documents\<close> returns
  false and leaves the world as it was: no vector-store handle is constructed and no
  document is added.
\<close>

theorem embed_documents_failure_leaves_store:
  assumes "\<not> exists (fs e) (target_dir self dp) \<or> \<not> is_dir (fs e) (target_dir self dp) \<or>
           kept_files e self (target_dir self dp) = [] \<or>
           ingestion_chunks e self (target_dir self dp) = []"
  shows "embed_documents e gcfg self dp w = (False, w) \<and>
         handles (snd (embed_documents e gcfg self dp w)) = handles w \<and>
         store (snd (embed_documents e gcfg self dp w)) = store w"
proof -
  have "kept_files e self (target_dir self dp) = [] \<Longrightarrow> ingestion_chunks e self (target_dir self dp) = []"
    by (simp add: ingestion_chunks_def)
  with assms have "process_directory e self dp = []"
    by (auto simp: process_directory_pipeline)
  then show ?thesis by (simp add: embed_documents_def)
qed

theorem embed_documents_failure_leaves_store_witness:
  "embed_documents ex_env ex_cfg (DocumentEmbedder ex_cfg) (Some ''/nowhere'') ex_world = (False, ex_world) \<and>
   embed_documents ex_env ex_cfg (DocumentEmbedder ex_cfg) (Some ''/data/admin/files/report.pdf'') ex_world
     = (False, ex_world) \<and>
   embed_documents ex_env ex_cfg (DocumentEmbedder ex_cfg) (Some ''/data/admin/files/pics'') ex_world
     = (False, ex_world) \<and>
   embed_documents ex_env ex_cfg (DocumentEmbedder ex_cfg) (Some ''/data/admin/files/broken'') ex_world
     = (False, ex_world)"
proof -
  have missing: "\<not> exists (fs ex_env) (target_dir (DocumentEmbedder ex_cfg) (Some ''/nowhere''))"
    by code_simp
  have regular: "\<not> is_dir (fs ex_env)
      (target_dir (DocumentEmbedder ex_cfg) (Some ''/data/admin/files/report.pdf''))"
    by code_simp
  have unsupported: "kept_files ex_env (DocumentEmbedder ex_cfg)
      (target_dir (DocumentEmbedder ex_cfg) (Some ''/data/admin/files/pics'')) = []"
    by code_simp
  have rejected: "ingestion_chunks ex_env (DocumentEmbedder ex_cfg)
      (target_dir (DocumentEmbedder ex_cfg) (Some ''/data/admin/files/broken'')) = []"
    by code_simp
  show ?thesis
    using embed_documents_failure_leaves_store [of ex_env "DocumentEmbedder ex_cfg" "Some ''/nowhere''" ex_cfg ex_world]
      embed_documents_failure_leaves_store [of ex_env "DocumentEmbedder ex_cfg" "Some ''/data/admin/files/report.pdf''" ex_cfg ex_world]
      embed_documents_failure_leaves_store [of ex_env "DocumentEmbedder ex_cfg" "Some ''/data/admin/files/pics''" ex_cfg ex_world]
      embed_documents_failure_leaves_store [of ex_env "DocumentEmbedder ex_cfg" "Some ''/data/admin/files/broken''" ex_cfg ex_world]
      missing regular unsupported rejected
    by blast
qed

text \<open>
  C1, as stated, fails: a regular file with a supported extension that the partitioning
  library rejects is kept by the walk and parsed into no document. In the installation
  three files are kept and two documents are collected.
\<close>

theorem embed_documents_rejected_file_counterexample:
  "Path ''/data/admin/files/broken/bad.txt''
     \<in> set (kept_files ex_env (DocumentEmbedder ex_cfg) (Path ''/data/admin/files'')) \<and>
   load_document ex_env (DocumentEmbedder ex_cfg) (Path ''/data/admin/files/broken/bad.txt'') = [] \<and>
   length (kept_files ex_env (DocumentEmbedder ex_cfg) (Path ''/data/admin/files'')) = 3 \<and>
   length (fst (process_loop ex_env (DocumentEmbedder ex_cfg)
      (rglob (fs ex_env) (Path ''/data/admin/files'')) ([], 0))) = 2"
  by code_simp

text \<open>
  C1, amended. For every directory path, ingestion walks the directory, keeps the regular
  files whose lowercased extension is in the supported set and parses each kept file with
  the partitioning library: when the library returns, the file becomes exactly one
  document, whose text is the parsed elements joined by blank lines and whose metadata are
  the source path, the file name, the lowercased file type, the file size and the
  last-modified time; when the library raises, the file contributes no document. The
  collected documents are split into chunks by the text splitter (no chunks when no
  document was collected or the splitter raises; none either when the path does not exist
  or is not a directory), and the chunks are added to the vector database.
  \<open>embed_documents\<close> returns true exactly when at least one chunk was produced and the
  store accepted the chunks; the chunks are then appended to the configured collection
  through one newly constructed handle.
\<close>

theorem embed_documents_pipeline:
  "process_directory e self dp =
     (if exists (fs e) (target_dir self dp) \<and> is_dir (fs e) (target_dir self dp)
      then ingestion_chunks e self (target_dir self dp) else []) \<and>
   (\<forall>p elements. is_file (fs e) p \<and> partition e (str_path p) = Inr elements \<longrightarrow>
      load_document e self p =
        [\<lparr> page_content = join [CHR 0x0A, CHR 0x0A] elements,
           metadata = \<lparr> source = str_path p, filename = name p, file_type = lower (suffix p),
                        file_size = st_size (fs e) p, last_modified = st_mtime (fs e) p \<rparr> \<rparr>]) \<and>
   (\<forall>p ex. partition e (str_path p) = Inl ex \<longrightarrow> load_document e self p = []) \<and>
   (fst (embed_documents e gcfg self dp w) \<longleftrightarrow>
      process_directory e self dp \<noteq> [] \<and>
      store_accepts e (fst (get_vector_db gcfg w)) (process_directory e self dp)) \<and>
   (fst (embed_documents e gcfg self dp w) \<longrightarrow>
      handles (snd (embed_documents e gcfg self dp w)) = handles w @ [fst (get_vector_db gcfg w)] \<and>
      store (snd (embed_documents e gcfg self dp w)) =
        (store w)((CHROMA_PATH gcfg, DEFAULT_COLLECTION gcfg) :=
           store w (CHROMA_PATH gcfg, DEFAULT_COLLECTION gcfg) @ process_directory e self dp))"
proof -
  have parsed: "\<forall>p elements. is_file (fs e) p \<and> partition e (str_path p) = Inr elements \<longrightarrow>
      load_document e self p =
        [\<lparr> page_content = join [CHR 0x0A, CHR 0x0A] elements,
           metadata = \<lparr> source = str_path p, filename = name p, file_type = lower (suffix p),
                        file_size = st_size (fs e) p, last_modified = st_mtime (fs e) p \<rparr> \<rparr>]"
    by (simp add: load_document_regular parse_file_def)
  have rejected: "\<forall>p ex. partition e (str_path p) = Inl ex \<longrightarrow> load_document e self p = []"
    by (simp add: load_document_def)
  have db: "persist_directory (fst (get_vector_db gcfg w)) = CHROMA_PATH gcfg"
    "collection_name (fst (get_vector_db gcfg w)) = DEFAULT_COLLECTION gcfg"
    by (simp_all add: get_vector_db_def Let_def)
  have returns: "fst (embed_documents e gcfg self dp w) \<longleftrightarrow>
      process_directory e self dp \<noteq> [] \<and>
      store_accepts e (fst (get_vector_db gcfg w)) (process_directory e self dp)"
    by (simp add: embed_documents_result Let_def store_accepts_def)
  have added: "fst (embed_documents e gcfg self dp w) \<longrightarrow>
      handles (snd (embed_documents e gcfg self dp w)) = handles w @ [fst (get_vector_db gcfg w)] \<and>
      store (snd (embed_documents e gcfg self dp w)) =
        (store w)((CHROMA_PATH gcfg, DEFAULT_COLLECTION gcfg) :=
           store w (CHROMA_PATH gcfg, DEFAULT_COLLECTION gcfg) @ process_directory e self dp)"
    by (simp add: embed_documents_result Let_def store_accepts_def db)
  show ?thesis
    using process_directory_pipeline [of e self dp] parsed rejected returns added
    by (intro conjI)
qed

theorem embed_documents_pipeline_witness:
  "fst (embed_documents ex_env_cut ex_cfg (DocumentEmbedder ex_cfg) (Some ''/data/admin/files'') ex_world) \<and>
   map page_content
     (store (snd (embed_documents ex_env_cut ex_cfg (DocumentEmbedder ex_cfg)
        (Some ''/data/admin/files'') ex_world)) (''./chroma_db'', ''documents''))
     = [''Title'', [CHR 0x0A, CHR 0x0A] @ ''/data/admin/files/report.pdf'',
        ''Title'', [CHR 0x0A, CHR 0x0A] @ ''/data/admin/files/sub/Notes.TXT''] \<and>
   load_document ex_env_cut (DocumentEmbedder ex_cfg) (Path ''/data/admin/files/sub/Notes.TXT'')
     = [\<lparr> page_content = ''Title'' @ [CHR 0x0A, CHR 0x0A] @ ''/data/admin/files/sub/Notes.TXT'',
          metadata = \<lparr> source = ''/data/admin/files/sub/Notes.TXT'', filename = ''Notes.TXT'',
                       file_type = ''.txt'', file_size = 90, last_modified = 0 \<rparr> \<rparr>] \<and>
   load_document ex_env_cut (DocumentEmbedder ex_cfg) (Path ''/data/admin/files/broken/bad.txt'') = []"
proof -
  let ?emb = "DocumentEmbedder ex_cfg"
  let ?chunks = "process_directory ex_env_cut ?emb (Some ''/data/admin/files'')"
  let ?notes = "Path ''/data/admin/files/sub/Notes.TXT''"
  let ?bad = "Path ''/data/admin/files/broken/bad.txt''"
  note pipeline = embed_documents_pipeline [of ex_env_cut ?emb "Some ''/data/admin/files''" ex_cfg ex_world]
  have produced: "?chunks \<noteq> []"
    by code_simp
  have accepted: "store_accepts ex_env_cut (fst (get_vector_db ex_cfg ex_world)) ?chunks"
    by (simp add: store_accepts_def ex_env_cut_def ex_env_def)
  have texts: "map page_content ?chunks
      = [''Title'', [CHR 0x0A, CHR 0x0A] @ ''/data/admin/files/report.pdf'',
         ''Title'', [CHR 0x0A, CHR 0x0A] @ ''/data/admin/files/sub/Notes.TXT'']"
    by code_simp
  have key: "CHROMA_PATH ex_cfg = ''./chroma_db''" "DEFAULT_COLLECTION ex_cfg = ''documents''"
    "store ex_world (''./chroma_db'', ''documents'') = []"
    by (simp_all add: ex_cfg_def ex_world_def)
  have stored: "fst (embed_documents ex_env_cut ex_cfg ?emb (Some ''/data/admin/files'') ex_world) \<and>
      store (snd (embed_documents ex_env_cut ex_cfg ?emb (Some ''/data/admin/files'') ex_world))
        (''./chroma_db'', ''documents'') = ?chunks"
    using conjunct2 [OF conjunct2 [OF conjunct2 [OF pipeline]]] produced accepted
    by (simp add: key)
  have regular: "is_file (fs ex_env_cut) ?notes"
    by code_simp
  have elements: "partition ex_env_cut (str_path ?notes) = Inr [''Title'', ''/data/admin/files/sub/Notes.TXT'']"
    by code_simp
  have fields: "str_path ?notes = ''/data/admin/files/sub/Notes.TXT''" "name ?notes = ''Notes.TXT''"
    "lower (suffix ?notes) = ''.txt''" "st_size (fs ex_env_cut) ?notes = 90"
    by code_simp+
  have mtime: "st_mtime (fs ex_env_cut) ?notes = 0"
    by (simp add: ex_env_cut_def ex_env_def ex_fs_def)
  have one: "load_document ex_env_cut ?emb ?notes
      = [\<lparr> page_content = ''Title'' @ [CHR 0x0A, CHR 0x0A] @ ''/data/admin/files/sub/Notes.TXT'',
           metadata = \<lparr> source = ''/data/admin/files/sub/Notes.TXT'', filename = ''Notes.TXT'',
                        file_type = ''.txt'', file_size = 90, last_modified = 0 \<rparr> \<rparr>]"
    using conjunct1 [OF conjunct2 [OF pipeline]] regular elements
    by (simp add: fields mtime)
  have raises: "partition ex_env_cut (str_path ?bad) = Inl (Exception ''unreadable'')"
    by code_simp
  have none: "load_document ex_env_cut ?emb ?bad = []"
    using conjunct1 [OF conjunct2 [OF conjunct2 [OF pipeline]]] raises by blast
  show ?thesis
    using stored texts one none by simp
qed

text \<open>
  C9. When \<open>embed_documents\<close> reports failure, \<open>POST /ingest\<close> answers with status 500:
  the exception with status 400 raised for the failed ingestion is caught by the
  endpoint's own handler and raised again with status 500 and a detail that starts with
  \<open>Ingestion failed:\<close>. The endpoint never answers with status 400, and every successful
  answer reports \<open>chunks_created\<close> as 0.
\<close>

theorem ingest_failure_is_500:
  "(\<not> fst (embed_documents e gcfg embedder (directory_path request) w) \<longrightarrow>
      fst (ingest_documents e gcfg embedder request w) =
        Inl (HTTPException 500 (''Ingestion failed: '' @ ''400: Failed to ingest documents''))) \<and>
   (\<forall>detail. fst (ingest_documents e gcfg embedder request w) \<noteq> Inl (HTTPException 400 detail)) \<and>
   (\<forall>response. fst (ingest_documents e gcfg embedder request w) = Inr response \<longrightarrow>
      chunks_created response = 0)"
  by (auto simp: ingest_documents_def Let_def split_beta str_nat_400 split: if_splits)

theorem ingest_failure_is_500_witness:
  "fst (ingest_documents ex_env ex_cfg (DocumentEmbedder ex_cfg)
      \<lparr> directory_path = Some ''/nowhere'', collection = None \<rparr> ex_world) =
     Inl (HTTPException 500 ''Ingestion failed: 400: Failed to ingest documents'')"
proof -
  have "\<not> fst (embed_documents ex_env ex_cfg (DocumentEmbedder ex_cfg) (Some ''/nowhere'') ex_world)"
    by code_simp
  then show ?thesis
    using ingest_failure_is_500 [of ex_env ex_cfg "DocumentEmbedder ex_cfg"
        "\<lparr> directory_path = Some ''/nowhere'', collection = None \<rparr>" ex_world]
    by simp
qed



text \<open>
  C7. In the chat UI every submitted non-empty prompt appends to the message history
  exactly one user message with the prompt as content, followed by exactly one assistant
  message whose content is the response of the query function, the not-found text when the
  response is empty or \<open>None\<close>, or an error text when the query function raises. The
  messages stored before stay in place unchanged; without a prompt the history is
  unchanged.
\<close>

theorem chat_input_appends:
  "(p \<noteq> [] \<longrightarrow>
      (\<exists>c. fst (chat_input e t t' (Some p) messages w) =
              messages @ [\<lparr> role = ''user'', content = p, timestamp = t \<rparr>,
                          \<lparr> role = ''assistant'', content = c, timestamp = t' \<rparr>] \<and>
            (case fst (rag_query e p w) of
               Inr (Some response) \<Rightarrow> c = (if response \<noteq> [] then response else not_found_msg)
             | Inr None \<Rightarrow> c = not_found_msg
             | Inl ex \<Rightarrow> c = ''Sorry, I encountered an error: '' @ str_exn ex))) \<and>
   chat_input e t t' (Some []) messages w = (messages, w) \<and>
   chat_input e t t' None messages w = (messages, w)"
  by (auto simp: chat_input_def Let_def split_beta split: sum.splits option.splits)

theorem chat_input_appends_witness:
  "fst (chat_input ex_env ''10:00:00'' ''10:00:01'' (Some ''hi'')
          [\<lparr> role = ''user'', content = ''old'', timestamp = ''09:00:00'' \<rparr>] ex_world) =
     [\<lparr> role = ''user'', content = ''old'', timestamp = ''09:00:00'' \<rparr>,
      \<lparr> role = ''user'', content = ''hi'', timestamp = ''10:00:00'' \<rparr>,
      \<lparr> role = ''assistant'', content = ''answer to hi'', timestamp = ''10:00:01'' \<rparr>]"
proof -
  have answer: "fst (rag_query ex_env ''hi'' ex_world) = Inr (Some ''answer to hi'')"
    by (simp add: ex_env_def)
  show ?thesis
    using chat_input_appends [of "''hi''" ex_env "''10:00:00''" "''10:00:01''"
        "[\<lparr> role = ''user'', content = ''old'', timestamp = ''09:00:00'' \<rparr>]" ex_world] answer
    by auto
qed

section \<open>Properties of the webhook\<close>

lemma convert_translates:
  assumes "\<not> startswith ''/'' rel" and "\<not> contains (''/'' @ uid @ ''/files/'') rel"
  shows "convert_nextcloud_path_to_filesystem e cfg (JStr (''/'' @ uid @ ''/files/'' @ rel)) (JStr uid)
           = Inr (translated_path cfg uid rel)"
proof -
  have "replace (''/'' @ uid @ ''/files/'') [] ((''/'' @ uid @ ''/files/'') @ rel) = rel"
    using assms(2) by (intro replace_prefix) simp_all
  then have "replace (''/'' @ uid @ ''/files/'') [] (''/'' @ uid @ ''/files/'' @ rel) = rel"
    by simp
  then show ?thesis
    using assms(1)
    by (simp add: convert_nextcloud_path_to_filesystem_def translated_path_def os_path_join_def)
qed

lemma webhook_well_formed:
  assumes "payload_of cls nc_path uid payload"
  shows "nextcloud_webhook e cfg embedder payload w =
           (case convert_nextcloud_path_to_filesystem e cfg (JStr nc_path) (JStr uid) of
              Inl ex \<Rightarrow> ([(''status'', ''error''), (''message'', str_exn ex)], w)
            | Inr actual_file_path \<Rightarrow>
                if cls = NodeCreatedEvent
                then handle_file_created e cfg embedder actual_file_path w
                else ([(''status'', ''ignored''), (''reason'', ''Event type not handled'')], w))"
  using assms
  by (auto simp: payload_of_def nextcloud_webhook_def Let_def
      split: option.splits json.splits sum.splits)

lemma convert_string_path:
  "\<exists>fp. convert_nextcloud_path_to_filesystem e cfg (JStr nc_path) user_id = Inr fp"
  by (simp add: convert_nextcloud_path_to_filesystem_def Let_def)

lemma handle_file_created_cases:
  "(let p = Path fp; db = fst (get_vector_db cfg w);
        chunks = chunk_documents e embedder (load_document e embedder p)
    in if exists (fs e) p \<and> is_supported_file embedder p \<and> load_document e embedder p \<noteq> [] \<and>
          add_error e db chunks = None
       then fst (handle_file_created e cfg embedder fp w) = [(''status'', ''success''), (''file'', fp)] \<and>
            handles (snd (handle_file_created e cfg embedder fp w)) = handles w @ [db] \<and>
            store (snd (handle_file_created e cfg embedder fp w)) =
              (store w)((CHROMA_PATH cfg, DEFAULT_COLLECTION cfg) :=
                 store w (CHROMA_PATH cfg, DEFAULT_COLLECTION cfg) @ chunks)
       else map_of (fst (handle_file_created e cfg embedder fp w)) ''status'' = Some ''failed'' \<and>
            store (snd (handle_file_created e cfg embedder fp w)) = store w)"
  by (auto simp: handle_file_created_def get_vector_db_def add_documents_def Let_def
      split: option.splits)

lemma handle_file_created_status:
  "map_of (fst (handle_file_created e cfg embedder fp w)) ''status'' = Some ''success'' \<or>
   map_of (fst (handle_file_created e cfg embedder fp w)) ''status'' = Some ''failed''"
  by (auto simp: handle_file_created_def get_vector_db_def add_documents_def Let_def
      split: option.splits)

lemma webhook_other_event:
  assumes "event_class payload \<noteq> Some (JStr NodeCreatedEvent)"
  shows "snd (nextcloud_webhook e cfg embedder payload w) = w \<and>
         (map_of (fst (nextcloud_webhook e cfg embedder payload w)) ''status'' = Some ''ignored'' \<or>
          map_of (fst (nextcloud_webhook e cfg embedder payload w)) ''status'' = Some ''error'')"
proof (cases "map_of payload ''event''")
  case None
  with assms have "JStr [] \<noteq> JStr NodeCreatedEvent" by (simp add: event_class_def)
  with None show ?thesis
    by (auto simp: nextcloud_webhook_def Let_def split: sum.splits)
next
  case (Some ev)
  show ?thesis
  proof (cases ev)
    case (JObj kvs)
    with Some assms
    have "(case map_of kvs ''class'' of None \<Rightarrow> JStr [] | Some v \<Rightarrow> v) \<noteq> JStr NodeCreatedEvent"
      by (simp add: event_class_def)
    with Some JObj show ?thesis
      by (auto simp: nextcloud_webhook_def Let_def split: sum.splits)
  qed (use Some in \<open>simp_all add: nextcloud_webhook_def Let_def\<close>)
qed

section \<open>The webhook claim\<close>

text \<open>
  C4, as stated, fails: a payload with the event class \<open>NodeCreatedEvent\<close> that names an
  existing picture is translated to the picture's path, and the endpoint answers that the
  file type is not supported and adds nothing to the vector database.
\<close>

theorem nextcloud_webhook_unsupported_counterexample:
  "payload_of NodeCreatedEvent ''/admin/files/pics/photo.png'' ''admin''
     (ex_payload NodeCreatedEvent ''/admin/files/pics/photo.png'') \<and>
   exists (fs ex_env) (Path (translated_path ex_cfg ''admin'' ''pics/photo.png'')) \<and>
   fst (nextcloud_webhook ex_env ex_cfg (DocumentEmbedder ex_cfg)
          (ex_payload NodeCreatedEvent ''/admin/files/pics/photo.png'') ex_world)
     = [(''status'', ''failed''), (''file'', ''File type not supported: .png'')] \<and>
   handles (snd (nextcloud_webhook ex_env ex_cfg (DocumentEmbedder ex_cfg)
          (ex_payload NodeCreatedEvent ''/admin/files/pics/photo.png'') ex_world)) = [] \<and>
   store (snd (nextcloud_webhook ex_env ex_cfg (DocumentEmbedder ex_cfg)
          (ex_payload NodeCreatedEvent ''/admin/files/pics/photo.png'') ex_world))
     (CHROMA_PATH ex_cfg, DEFAULT_COLLECTION ex_cfg) = []"
  by code_simp

text \<open>
  C4, amended. Take a payload whose event and user are dictionaries, whose user id
  \<open>uid\<close> and event class are strings and whose path is the string \<open>/uid/files/rel\<close>,
  where \<open>rel\<close> neither starts with a slash nor contains \<open>/uid/files/\<close>. If the event
  class is \<open>NodeCreatedEvent\<close>, the endpoint handles exactly the file at the path that
  joins \<open>NEXTCLOUD_PATH\<close>, the user id, \<open>files\<close> and \<open>rel\<close>: when that path exists, has a
  supported extension, loads to a document and the store accepts the chunks, the answer
  is a success status for that path and the chunks of this one file are appended to the
  configured collection through one new handle; otherwise the answer is a failed status
  and no document is added. For any other event class of such a payload, whatever its
  path string, the answer is the ignored status and the world is as before. For every
  payload at all whose event class is not \<open>NodeCreatedEvent\<close> the world is as before and
  the status is ignored or error.
\<close>

theorem nextcloud_webhook_single_file:
  "(payload_of NodeCreatedEvent (''/'' @ uid @ ''/files/'' @ rel) uid payload \<and>
    \<not> startswith ''/'' rel \<and> \<not> contains (''/'' @ uid @ ''/files/'') rel \<longrightarrow>
      (let fp = translated_path cfg uid rel; p = Path fp; db = fst (get_vector_db cfg w);
           chunks = chunk_documents e embedder (load_document e embedder p);
           result = nextcloud_webhook e cfg embedder payload w
       in result = handle_file_created e cfg embedder fp w \<and>
          (if exists (fs e) p \<and> is_supported_file embedder p \<and> load_document e embedder p \<noteq> [] \<and>
              add_error e db chunks = None
           then fst result = [(''status'', ''success''), (''file'', fp)] \<and>
                handles (snd result) = handles w @ [db] \<and>
                store (snd result) =
                  (store w)((CHROMA_PATH cfg, DEFAULT_COLLECTION cfg) :=
                     store w (CHROMA_PATH cfg, DEFAULT_COLLECTION cfg) @ chunks)
           else map_of (fst result) ''status'' = Some ''failed'' \<and>
                store (snd result) = store w))) \<and>
   (payload_of cls nc_path uid payload \<and> cls \<noteq> NodeCreatedEvent \<longrightarrow>
      nextcloud_webhook e cfg embedder payload w =
        ([(''status'', ''ignored''), (''reason'', ''Event type not handled'')], w)) \<and>
   (event_class payload \<noteq> Some (JStr NodeCreatedEvent) \<longrightarrow>
      snd (nextcloud_webhook e cfg embedder payload w) = w \<and>
      (map_of (fst (nextcloud_webhook e cfg embedder payload w)) ''status'' = Some ''ignored'' \<or>
       map_of (fst (nextcloud_webhook e cfg embedder payload w)) ''status'' = Some ''error''))"
proof (intro conjI impI)
  assume created: "payload_of NodeCreatedEvent (''/'' @ uid @ ''/files/'' @ rel) uid payload \<and>
    \<not> startswith ''/'' rel \<and> \<not> contains (''/'' @ uid @ ''/files/'') rel"
  then have shape: "payload_of NodeCreatedEvent (''/'' @ uid @ ''/files/'' @ rel) uid payload"
    and relative: "\<not> startswith ''/'' rel" "\<not> contains (''/'' @ uid @ ''/files/'') rel"
    by blast+
  have "nextcloud_webhook e cfg embedder payload w =
      handle_file_created e cfg embedder (translated_path cfg uid rel) w"
    unfolding webhook_well_formed [OF shape] convert_translates [OF relative] by simp
  then show "let fp = translated_path cfg uid rel; p = Path fp; db = fst (get_vector_db cfg w);
           chunks = chunk_documents e embedder (load_document e embedder p);
           result = nextcloud_webhook e cfg embedder payload w
       in result = handle_file_created e cfg embedder fp w \<and>
          (if exists (fs e) p \<and> is_supported_file embedder p \<and> load_document e embedder p \<noteq> [] \<and>
              add_error e db chunks = None
           then fst result = [(''status'', ''success''), (''file'', fp)] \<and>
                handles (snd result) = handles w @ [db] \<and>
                store (snd result) =
                  (store w)((CHROMA_PATH cfg, DEFAULT_COLLECTION cfg) :=
                     store w (CHROMA_PATH cfg, DEFAULT_COLLECTION cfg) @ chunks)
           else map_of (fst result) ''status'' = Some ''failed'' \<and>
                store (snd result) = store w)"
    using handle_file_created_cases [of "translated_path cfg uid rel" cfg w e embedder]
    by (simp add: Let_def)
next
  assume other: "payload_of cls nc_path uid payload \<and> cls \<noteq> NodeCreatedEvent"
  obtain fp where "convert_nextcloud_path_to_filesystem e cfg (JStr nc_path) (JStr uid) = Inr fp"
    using convert_string_path by blast
  then show "nextcloud_webhook e cfg embedder payload w =
      ([(''status'', ''ignored''), (''reason'', ''Event type not handled'')], w)"
    using other by (simp add: webhook_well_formed [of cls nc_path uid payload])
next
  assume "event_class payload \<noteq> Some (JStr NodeCreatedEvent)"
  then show "snd (nextcloud_webhook e cfg embedder payload w) = w"
    by (simp add: webhook_other_event)
next
  assume "event_class payload \<noteq> Some (JStr NodeCreatedEvent)"
  then show "map_of (fst (nextcloud_webhook e cfg embedder payload w)) ''status'' = Some ''ignored'' \<or>
       map_of (fst (nextcloud_webhook e cfg embedder payload w)) ''status'' = Some ''error''"
    using webhook_other_event by blast
qed

theorem nextcloud_webhook_single_file_witness:
  "fst (nextcloud_webhook ex_env ex_cfg (DocumentEmbedder ex_cfg)
          (ex_payload NodeCreatedEvent ''/admin/files/report.pdf'') ex_world)
     = [(''status'', ''success''), (''file'', ''/data/admin/files/report.pdf'')] \<and>
   map (\<lambda>doc. source (metadata doc))
     (store (snd (nextcloud_webhook ex_env ex_cfg (DocumentEmbedder ex_cfg)
        (ex_payload NodeCreatedEvent ''/admin/files/report.pdf'') ex_world)) (''./chroma_db'', ''documents''))
     = [''/data/admin/files/report.pdf''] \<and>
   nextcloud_webhook ex_env ex_cfg (DocumentEmbedder ex_cfg)
       (ex_payload ''NodeWrittenEvent'' ''/admin/files/report.pdf'') ex_world
     = ([(''status'', ''ignored''), (''reason'', ''Event type not handled'')], ex_world) \<and>
   snd (nextcloud_webhook ex_env ex_cfg (DocumentEmbedder ex_cfg)
       [(''event'', JObj [(''class'', JStr ''NodeWrittenEvent'')]), (''user'', JStr ''admin'')] ex_world)
     = ex_world"
proof -
  let ?emb = "DocumentEmbedder ex_cfg"
  let ?created = "ex_payload NodeCreatedEvent ''/admin/files/report.pdf''"
  let ?written = "ex_payload ''NodeWrittenEvent'' ''/admin/files/report.pdf''"
  let ?odd = "[(''event'', JObj [(''class'', JStr ''NodeWrittenEvent'')]), (''user'', JStr ''admin'')]"
  let ?p = "Path ''/data/admin/files/report.pdf''"
  let ?chunks = "chunk_documents ex_env ?emb (load_document ex_env ?emb ?p)"
  have shape: "payload_of NodeCreatedEvent (''/'' @ ''admin'' @ ''/files/'' @ ''report.pdf'') ''admin'' ?created"
    by code_simp
  have relative: "\<not> startswith ''/'' ''report.pdf''"
    "\<not> contains (''/'' @ ''admin'' @ ''/files/'') ''report.pdf''"
    by code_simp+
  have path: "translated_path ex_cfg ''admin'' ''report.pdf'' = ''/data/admin/files/report.pdf''"
    by (simp add: translated_path_def ex_cfg_def)
  have key: "CHROMA_PATH ex_cfg = ''./chroma_db''" "DEFAULT_COLLECTION ex_cfg = ''documents''"
    "store ex_world (''./chroma_db'', ''documents'') = []"
    by (simp_all add: ex_cfg_def ex_world_def)
  have loadable: "exists (fs ex_env) ?p" "is_supported_file ?emb ?p" "load_document ex_env ?emb ?p \<noteq> []"
    by code_simp+
  have accepted: "add_error ex_env (fst (get_vector_db ex_cfg ex_world)) ?chunks = None"
    by (simp add: ex_env_def)
  have sources: "map (\<lambda>doc. source (metadata doc)) ?chunks = [''/data/admin/files/report.pdf'']"
    by code_simp
  have written: "payload_of ''NodeWrittenEvent'' ''/admin/files/report.pdf'' ''admin'' ?written"
    "''NodeWrittenEvent'' \<noteq> NodeCreatedEvent"
    by code_simp+
  have odd: "event_class ?odd \<noteq> Some (JStr NodeCreatedEvent)"
    by code_simp
  note created_case = conjunct1 [OF nextcloud_webhook_single_file
      [where uid = "''admin''" and rel = "''report.pdf''" and payload = ?created
         and e = ex_env and cfg = ex_cfg and embedder = ?emb and w = ex_world]]
  note written_case = conjunct1 [OF conjunct2 [OF nextcloud_webhook_single_file
      [where payload = ?written and cls = "''NodeWrittenEvent''"
         and nc_path = "''/admin/files/report.pdf''" and uid = "''admin''"
         and e = ex_env and cfg = ex_cfg and embedder = ?emb and w = ex_world]]]
  note odd_case = conjunct2 [OF conjunct2 [OF nextcloud_webhook_single_file
      [where payload = ?odd and e = ex_env and cfg = ex_cfg and embedder = ?emb and w = ex_world]]]
  have first: "fst (nextcloud_webhook ex_env ex_cfg ?emb ?created ex_world)
      = [(''status'', ''success''), (''file'', ''/data/admin/files/report.pdf'')] \<and>
    store (snd (nextcloud_webhook ex_env ex_cfg ?emb ?created ex_world))
      = (store ex_world)((''./chroma_db'', ''documents'') := ?chunks)"
    using conjunct2 [OF mp [OF created_case conjI [OF shape conjI [OF relative]], unfolded Let_def path]]
      loadable accepted
    by (simp add: key)
  have third: "nextcloud_webhook ex_env ex_cfg ?emb ?written ex_world
      = ([(''status'', ''ignored''), (''reason'', ''Event type not handled'')], ex_world)"
    using written_case written by blast
  have fourth: "snd (nextcloud_webhook ex_env ex_cfg ?emb ?odd ex_world) = ex_world"
    using odd_case odd by blast
  show ?thesis
    using first third fourth sources by simp
qed

end
